theory Spec2Isabelle
  imports Main
begin

unbundle bit_operations_syntax

section \<open>Data model\<close>

text \<open>
  A shallow embedding of \<^verbatim>\<open>skepticoin/networking/local_peer.py\<close> (the classes
  \<^verbatim>\<open>DiskInterface\<close> and \<^verbatim>\<open>LocalPeer\<close>) and of the consensus functions that
  \<^verbatim>\<open>tests/test_consensus.py\<close> exercises.

  Python \<^verbatim>\<open>bytes\<close> and \<^verbatim>\<open>str\<close> are character lists, Python integers are \<open>int\<close>.
  A socket object is known by its identity, a natural number.
\<close>

type_synonym bytes = string
type_synonym sock = nat

datatype direction = INCOMING | OUTGOING

text \<open>A port is a number, or the marker \<^verbatim>\<open>IRRELEVANT\<close> that \<^verbatim>\<open>show_stats\<close> tests for.\<close>

datatype port = Port int | IRRELEVANT

text \<open>
  The peer classes of \<^verbatim>\<open>remote_peer.py\<close>, with the attributes that
  \<^verbatim>\<open>local_peer.py\<close> reads: the connection identity is common to both classes, a
  connected peer has its socket and the flag \<^verbatim>\<open>hello_received\<close>.
\<close>

record RemotePeer =
  host :: string
  port :: port
  direction :: direction

record ConnectedRemotePeer = RemotePeer +
  hello_received :: bool
  sock :: sock

record DisconnectedRemotePeer = RemotePeer +
  connection_attempts :: nat

text \<open>
  Exceptions are values. Every constructor is a subclass of Python's \<^verbatim>\<open>Exception\<close>:
  these are what socket calls, the selector, the file system and the message handlers
  raise. \<^verbatim>\<open>FileNotFoundError\<close> is a subclass of \<^verbatim>\<open>OSError\<close>, as are the connection
  errors, which are \<open>OSError\<close> with their message here. What is not an \<^verbatim>\<open>Exception\<close>
  (\<^verbatim>\<open>KeyboardInterrupt\<close>, \<^verbatim>\<open>SystemExit\<close>) is not modelled.
\<close>

datatype py_exception =
    OSError string
  | FileNotFoundError
  | KeyError
  | TypeError
  | AssertionError
  | OtherException string

fun is_OSError :: "py_exception \<Rightarrow> bool" where
  "is_OSError (OSError _) = True"
| "is_OSError FileNotFoundError = True"
| "is_OSError _ = False"

section \<open>DiskInterface\<close>

text \<open>
  The disk maps a path to the content of the file there. The address book is JSON: an
  array with one \<^verbatim>\<open>[host, port, direction]\<close> array per entry, which is the list of
  triples here. Opening a file with mode \<^verbatim>\<open>"w"\<close> and writing to it replaces the
  content in one step of the model; \<^verbatim>\<open>os.remove\<close> raises \<^verbatim>\<open>FileNotFoundError\<close> when
  there is no file at the path.
\<close>

datatype file_content =
    Json "(string \<times> port \<times> direction) list"
  | Raw bytes

type_synonym disk = "string \<rightharpoonup> file_content"

definition os_remove :: "string \<Rightarrow> disk \<Rightarrow> py_exception option \<times> disk" where
  "os_remove path d =
     (case d path of
        None \<Rightarrow> (Some FileNotFoundError, d)
      | Some _ \<Rightarrow> (None, d(path := None)))"

definition json_dump_to :: "string \<Rightarrow> (string \<times> port \<times> direction) list \<Rightarrow> disk \<Rightarrow> py_exception option \<times> disk" where
  "json_dump_to path db d = (None, d(path \<mapsto> Json db))"

definition overwrite_peers :: "ConnectedRemotePeer list \<Rightarrow> disk \<Rightarrow> py_exception option \<times> disk" where
  "overwrite_peers peers d =
     (let db = map (\<lambda>remote_peer. (host remote_peer, port remote_peer, direction remote_peer))
                 (filter (\<lambda>remote_peer. direction remote_peer = OUTGOING \<and> hello_received remote_peer) peers)
      in if db \<noteq> [] then json_dump_to ''peers.json'' db d
         else os_remove ''peers.json'' d)"

section \<open>Block subsidy\<close>

text \<open>
  Modelled from the spec: \<^verbatim>\<open>get_block_subsidy\<close> of \<^verbatim>\<open>skepticoin/consensus.py\<close> and
  the constant \<^verbatim>\<open>SASHIMI_PER_COIN\<close> of \<^verbatim>\<open>skepticoin/params.py\<close>, neither of which is
  among the sources; only \<^verbatim>\<open>test_get_block_subsidy\<close> is. The subsidy starts at 10 coins
  and is halved, by integer division, once per interval of 1,050,000 blocks. The number
  of smallest units in a coin is a parameter, as no source gives it.
\<close>

definition SUBSIDY_HALVING_INTERVAL :: int where
  "SUBSIDY_HALVING_INTERVAL = 1050000"

definition INITIAL_SUBSIDY :: "int \<Rightarrow> int" where
  "INITIAL_SUBSIDY sashimi_per_coin = 10 * sashimi_per_coin"

definition get_block_subsidy :: "int \<Rightarrow> int \<Rightarrow> int" where
  "get_block_subsidy sashimi_per_coin height =
     INITIAL_SUBSIDY sashimi_per_coin div 2 ^ nat (height div SUBSIDY_HALVING_INTERVAL)"

section \<open>Non-coinbase transaction validation\<close>

text \<open>
  Modelled from the spec: the classes \<^verbatim>\<open>Transaction\<close>, \<^verbatim>\<open>Input\<close>, \<^verbatim>\<open>Output\<close> and
  \<^verbatim>\<open>OutputReference\<close> of \<^verbatim>\<open>skepticoin/datatypes.py\<close> and the signature classes of
  \<^verbatim>\<open>skepticoin/signing.py\<close>, which are not among the sources; the tests build them as
  below. The first field of \<^verbatim>\<open>Output\<close> is the amount, in smallest units.
\<close>

datatype signature = SECP256k1Signature bytes | SignableEquivalent

record OutputReference =
  hash :: bytes
  index :: int

record Input =
  output_reference :: OutputReference
  signature :: signature

record Output =
  amount :: int
  public_key :: bytes

record Transaction =
  inputs :: "Input list"
  outputs :: "Output list"

text \<open>
  Modelled from the spec: the error that \<^verbatim>\<open>validate_non_coinbase_transaction_by_itself\<close>
  raises, one kind per rule; the names follow the messages that the tests match.
\<close>

datatype ValidateTransactionError =
    No_inputs
  | No_outputs
  | Exceeds_max_size
  | Output_reference_referenced_more_than_once
  | Null_reference_in_non_coinbase_transaction
  | Non_signature_Signature_class_used
  | Out_of_range

text \<open>
  Modelled from the spec: the null marker of a coinbase input, which the test writes as 32
  zero bytes with index 0; the signature variants, of which \<^verbatim>\<open>SignableEquivalent\<close> is the
  placeholder; and the valid range of an amount, from zero to the coin-supply bound.
\<close>

definition is_null :: "OutputReference \<Rightarrow> bool" where
  "is_null r = (hash r = replicate 32 (CHR 0x00) \<and> index r = 0)"

fun is_signature :: "signature \<Rightarrow> bool" where
  "is_signature (SECP256k1Signature _) = True"
| "is_signature SignableEquivalent = False"

definition money_range :: "int \<Rightarrow> int \<Rightarrow> bool" where
  "money_range max_money v = (0 \<le> v \<and> v \<le> max_money)"

text \<open>
  Modelled from the spec: \<^verbatim>\<open>validate_non_coinbase_transaction_by_itself\<close> of
  \<^verbatim>\<open>skepticoin/consensus.py\<close>, which is not among the sources (only its tests are). The
  rules are checked in the order in which the spec lists them, and the first one that
  fails raises. The serialization, the maximum size (\<^verbatim>\<open>MAX_BLOCK_SIZE\<close> in the test) and
  the coin-supply bound are parameters, as no source gives them; a size equal to the
  maximum passes. \<open>Inr ()\<close> is a transaction that passes.
\<close>

definition validate_non_coinbase_transaction_by_itself ::
    "(Transaction \<Rightarrow> bytes) \<Rightarrow> nat \<Rightarrow> int \<Rightarrow> Transaction \<Rightarrow> ValidateTransactionError + unit" where
  "validate_non_coinbase_transaction_by_itself serialize max_size max_money transaction =
     (if inputs transaction = [] then Inl No_inputs
      else if outputs transaction = [] then Inl No_outputs
      else if length (serialize transaction) > max_size then Inl Exceeds_max_size
      else if \<not> distinct (map output_reference (inputs transaction))
        then Inl Output_reference_referenced_more_than_once
      else if list_ex (\<lambda>i. is_null (output_reference i)) (inputs transaction)
        then Inl Null_reference_in_non_coinbase_transaction
      else if list_ex (\<lambda>i. \<not> is_signature (signature i)) (inputs transaction)
        then Inl Non_signature_Signature_class_used
      else if \<not> money_range max_money (sum_list (map amount (outputs transaction)))
        then Inl Out_of_range
      else Inr ())"

text \<open>
  What it is for a transaction to break the rule an error names, in the words of the
  spec's list of rejected transactions.
\<close>

fun violates :: "(Transaction \<Rightarrow> bytes) \<Rightarrow> nat \<Rightarrow> int \<Rightarrow> Transaction \<Rightarrow> ValidateTransactionError \<Rightarrow> bool" where
  "violates serialize max_size max_money t No_inputs = (inputs t = [])"
| "violates serialize max_size max_money t No_outputs = (outputs t = [])"
| "violates serialize max_size max_money t Exceeds_max_size = (max_size < length (serialize t))"
| "violates serialize max_size max_money t Output_reference_referenced_more_than_once =
     (\<not> distinct (map output_reference (inputs t)))"
| "violates serialize max_size max_money t Null_reference_in_non_coinbase_transaction =
     (\<exists>i \<in> set (inputs t). is_null (output_reference i))"
| "violates serialize max_size max_money t Non_signature_Signature_class_used =
     (\<exists>i \<in> set (inputs t). signature i = SignableEquivalent)"
| "violates serialize max_size max_money t Out_of_range =
     (sum_list (map amount (outputs t)) < 0 \<or> max_money < sum_list (map amount (outputs t)))"

section \<open>LocalPeer: the world and its collaborators\<close>

text \<open>
  What the selector holds for a registered socket (\<^verbatim>\<open>key.data\<close>): the marker of the
  listening socket, or the session of a peer. The model keeps the peer by value.
\<close>

datatype key_data = LISTENING_SOCKET | Peer ConnectedRemotePeer

type_synonym selector_key = "sock \<times> key_data"

text \<open>
  The state that \<^verbatim>\<open>LocalPeer\<close> owns: the flag \<^verbatim>\<open>running\<close>, the selector (its
  registrations in the order they were made, and whether it has been closed), and the
  sockets that are open. Everything else (the managers' own state, the network, the
  clock) is the component \<open>ext\<close>, of a type the model does not look into.
\<close>

record 'x world =
  running :: bool
  fd_to_key :: "selector_key list"
  selector_closed :: bool
  open_socks :: "sock set"
  ext :: 'x

text \<open>
  What the code does to its collaborators, in the order it does it. An event is recorded
  when the call is made, whether or not the call raises. Of the logging, only the
  error-level lines of \<^verbatim>\<open>run\<close> are events.
\<close>

datatype manager = NetworkManager | ChainManager

datatype event =
    ManagerStep manager int
  | Select
  | Dispatch selector_key int
  | Disconnect ConnectedRemotePeer string
  | Unregister sock
  | SockClose sock
  | PeerDisconnected ConnectedRemotePeer
  | Accepted sock
  | SocketCreated sock
  | Register sock key_data
  | PeerConnected ConnectedRemotePeer
  | LogError string
  | LogTraceback py_exception
  | SelectorClose

text \<open>
  A call returns normally (\<open>None\<close>) or raises, and leaves a world and the events it
  made.
\<close>

type_synonym 'x outcome = "py_exception option \<times> 'x world \<times> event list"

text \<open>
  The collaborators, none of which is among the sources. The library calls
  (\<^verbatim>\<open>time\<close>, \<^verbatim>\<open>select\<close>, \<^verbatim>\<open>accept\<close>, \<^verbatim>\<open>getpeername\<close>, \<^verbatim>\<open>recv\<close>,
  \<^verbatim>\<open>socket.socket\<close>, \<^verbatim>\<open>connect_ex\<close>) read and change \<open>ext\<close> only. The managers and
  the peer sessions hold a reference to the \<^verbatim>\<open>LocalPeer\<close>, so their methods may change
  the whole world: they may call \<^verbatim>\<open>stop\<close>, \<^verbatim>\<open>disconnect\<close> or
  \<^verbatim>\<open>start_outgoing_connection\<close>. Every one of them may raise. There is one thread:
  a \<^verbatim>\<open>stop\<close> from elsewhere is a \<^verbatim>\<open>stop\<close> by the collaborator that runs at the time.
\<close>

record 'x env =
  platform :: string
  time :: "'x \<Rightarrow> int"
  select :: "selector_key list \<Rightarrow> 'x \<Rightarrow> (py_exception + (selector_key \<times> int) list) \<times> 'x"
  accept :: "sock \<Rightarrow> 'x \<Rightarrow> (py_exception + sock) \<times> 'x"
  getpeername :: "sock \<Rightarrow> 'x \<Rightarrow> py_exception + (string \<times> int)"
  recv :: "sock \<Rightarrow> 'x \<Rightarrow> (py_exception + bytes) \<times> 'x"
  socket_new :: "'x \<Rightarrow> (py_exception + sock) \<times> 'x"
  connect_ex :: "sock \<Rightarrow> string \<Rightarrow> port \<Rightarrow> 'x \<Rightarrow> py_exception option \<times> 'x"
  step :: "manager \<Rightarrow> int \<Rightarrow> 'x world \<Rightarrow> py_exception option \<times> 'x world"
  handle_peer_connected :: "ConnectedRemotePeer \<Rightarrow> 'x world \<Rightarrow> py_exception option \<times> 'x world"
  handle_peer_disconnected :: "ConnectedRemotePeer \<Rightarrow> 'x world \<Rightarrow> py_exception option \<times> 'x world"
  get_active_peers :: "'x world \<Rightarrow> ConnectedRemotePeer list"
  handle_receive_data :: "ConnectedRemotePeer \<Rightarrow> bytes \<Rightarrow> 'x world \<Rightarrow> py_exception option \<times> 'x world"
  handle_can_send :: "ConnectedRemotePeer \<Rightarrow> sock \<Rightarrow> 'x world \<Rightarrow> py_exception option \<times> 'x world"

text \<open>Sequencing: the second call runs in the world the first one left, unless it raised.\<close>

definition then_do :: "'x outcome \<Rightarrow> ('x world \<Rightarrow> 'x outcome) \<Rightarrow> 'x outcome" where
  "then_do r f =
     (case r of
        (Some e, w, evs) \<Rightarrow> (Some e, w, evs)
      | (None, w, evs) \<Rightarrow> (case f w of (r', w', evs') \<Rightarrow> (r', w', evs @ evs')))"

text \<open>A call of a collaborator, with the event that records it.\<close>

definition call :: "event \<Rightarrow> ('x world \<Rightarrow> py_exception option \<times> 'x world) \<Rightarrow> 'x world \<Rightarrow> 'x outcome" where
  "call ev f w = (case f w of (r, w') \<Rightarrow> (r, w', [ev]))"

subsection \<open>The selector and the sockets\<close>

text \<open>
  \<^verbatim>\<open>selectors.DefaultSelector\<close>, as its base class has it: \<^verbatim>\<open>register\<close> raises
  \<^verbatim>\<open>KeyError\<close> for a socket that is registered already, \<^verbatim>\<open>unregister\<close> raises
  \<^verbatim>\<open>KeyError\<close> for one that is not, \<^verbatim>\<open>close\<close> drops every registration, and
  \<^verbatim>\<open>get_map\<close> is \<^verbatim>\<open>None\<close> once the selector is closed. Closing a socket never raises.
\<close>

definition register :: "sock \<Rightarrow> key_data \<Rightarrow> 'x world \<Rightarrow> 'x outcome" where
  "register s d w =
     (if map_of (fd_to_key w) s \<noteq> None then (Some KeyError, w, [Register s d])
      else (None, w\<lparr>fd_to_key := fd_to_key w @ [(s, d)]\<rparr>, [Register s d]))"

definition unregister :: "sock \<Rightarrow> 'x world \<Rightarrow> 'x outcome" where
  "unregister s w =
     (if map_of (fd_to_key w) s = None then (Some KeyError, w, [Unregister s])
      else (None, w\<lparr>fd_to_key := filter (\<lambda>k. fst k \<noteq> s) (fd_to_key w)\<rparr>, [Unregister s]))"

definition get_map :: "'x world \<Rightarrow> selector_key list option" where
  "get_map w = (if selector_closed w then None else Some (fd_to_key w))"

definition selector_close :: "'x world \<Rightarrow> 'x outcome" where
  "selector_close w = (None, w\<lparr>fd_to_key := [], selector_closed := True\<rparr>, [SelectorClose])"

definition sock_close :: "sock \<Rightarrow> 'x world \<Rightarrow> 'x outcome" where
  "sock_close s w = (None, w\<lparr>open_socks := open_socks w - {s}\<rparr>, [SockClose s])"

definition EVENT_READ :: int where
  "EVENT_READ = 1"

definition EVENT_WRITE :: int where
  "EVENT_WRITE = 2"

subsection \<open>The methods of LocalPeer\<close>

definition MAX_SELECTOR_SIZE_BY_PLATFORM :: "(string \<times> nat) list" where
  "MAX_SELECTOR_SIZE_BY_PLATFORM = [(''win32'', 64), (''linux'', 512)]"

text \<open>\<^verbatim>\<open>MAX_SELECTOR_SIZE_BY_PLATFORM.get(sys.platform, 64)\<close>\<close>

definition max_selector_map_size :: "string \<Rightarrow> nat" where
  "max_selector_map_size pf =
     (case map_of MAX_SELECTOR_SIZE_BY_PLATFORM pf of Some n \<Rightarrow> n | None \<Rightarrow> 64)"

text \<open>
  Modelled from the spec: the constructor of \<^verbatim>\<open>ConnectedRemotePeer\<close> and
  \<^verbatim>\<open>DisconnectedRemotePeer.as_connected\<close> (\<^verbatim>\<open>remote_peer.py\<close> is not among the
  sources). A new session has the connection identity it is given and its socket, and
  has not received the hello yet.
\<close>

definition new_ConnectedRemotePeer :: "string \<Rightarrow> port \<Rightarrow> direction \<Rightarrow> sock \<Rightarrow> ConnectedRemotePeer" where
  "new_ConnectedRemotePeer h pt dir s =
     \<lparr>host = h, port = pt, direction = dir, hello_received = False, sock = s\<rparr>"

definition as_connected :: "DisconnectedRemotePeer \<Rightarrow> sock \<Rightarrow> ConnectedRemotePeer" where
  "as_connected disconnected_peer s =
     new_ConnectedRemotePeer (host disconnected_peer) (port disconnected_peer) (direction disconnected_peer) s"

definition handle_incoming_connection :: "'x env \<Rightarrow> sock \<Rightarrow> 'x world \<Rightarrow> 'x outcome" where
  "handle_incoming_connection E lsock w =
     (case accept E lsock (ext w) of
        (Inl e, x1) \<Rightarrow> (Some e, w\<lparr>ext := x1\<rparr>, [])
      | (Inr conn, x1) \<Rightarrow>
          (let w1 = w\<lparr>ext := x1, open_socks := insert conn (open_socks w)\<rparr> in
           case getpeername E conn x1 of
             Inl e \<Rightarrow> (Some e, w1, [Accepted conn])
           | Inr (remote_host, remote_port) \<Rightarrow>
               (let remote_peer = new_ConnectedRemotePeer remote_host (Port remote_port) INCOMING conn in
                then_do (None, w1, [Accepted conn]) (\<lambda>w.
                then_do (register conn (Peer remote_peer) w)
                  (call (PeerConnected remote_peer) (handle_peer_connected E remote_peer))))))"

definition disconnect :: "'x env \<Rightarrow> ConnectedRemotePeer \<Rightarrow> string \<Rightarrow> 'x world \<Rightarrow> 'x outcome" where
  "disconnect E remote_peer reason w =
     (case then_do (unregister (sock remote_peer) w) (\<lambda>w.
           then_do (sock_close (sock remote_peer) w)
             (call (PeerDisconnected remote_peer) (handle_peer_disconnected E remote_peer)))
      of (_, w', evs) \<Rightarrow> (None, w', Disconnect remote_peer reason # evs))"

text \<open>The body of the \<^verbatim>\<open>try\<close> statement of \<^verbatim>\<open>handle_remote_peer_selector_event\<close>.\<close>

definition remote_peer_event_body :: "'x env \<Rightarrow> sock \<Rightarrow> ConnectedRemotePeer \<Rightarrow> int \<Rightarrow> 'x world \<Rightarrow> 'x outcome" where
  "remote_peer_event_body E s remote_peer mask' w =
     then_do
       (if mask' AND EVENT_READ \<noteq> 0 then
          (case recv E s (ext w) of
             (Inl e, x1) \<Rightarrow> (Some e, w\<lparr>ext := x1\<rparr>, [])
           | (Inr recv_data, x1) \<Rightarrow>
               (if recv_data \<noteq> [] then
                  (case handle_receive_data E remote_peer recv_data (w\<lparr>ext := x1\<rparr>) of
                     (r, w') \<Rightarrow> (r, w', []))
                else disconnect E remote_peer ''connection closed remotely'' (w\<lparr>ext := x1\<rparr>)))
        else (None, w, []))
       (\<lambda>w. if mask' AND EVENT_WRITE \<noteq> 0 then
               (case handle_can_send E remote_peer s w of (r, w') \<Rightarrow> (r, w', []))
             else (None, w, []))"

definition handle_remote_peer_selector_event :: "'x env \<Rightarrow> selector_key \<Rightarrow> int \<Rightarrow> 'x world \<Rightarrow> 'x outcome" where
  "handle_remote_peer_selector_event E key mask' w =
     (case snd key of
        LISTENING_SOCKET \<Rightarrow> (Some AssertionError, w, [])
      | Peer remote_peer \<Rightarrow>
          (case remote_peer_event_body E (fst key) remote_peer mask' w of
             (None, w', evs) \<Rightarrow> (None, w', evs)
           | (Some e, w', evs) \<Rightarrow>
               (case disconnect E remote_peer (if is_OSError e then ''OS error'' else ''Exception'') w' of
                  (r, w'', evs') \<Rightarrow> (r, w'', evs @ evs'))))"

definition start_outgoing_connection :: "'x env \<Rightarrow> DisconnectedRemotePeer \<Rightarrow> 'x world \<Rightarrow> 'x outcome" where
  "start_outgoing_connection E disconnected_peer w =
     (case get_map w of
        None \<Rightarrow> (Some TypeError, w, [])
      | Some m \<Rightarrow>
          if length m \<ge> max_selector_map_size (platform E) then (None, w, [])
          else
            (case socket_new E (ext w) of
               (Inl e, x1) \<Rightarrow> (Some e, w\<lparr>ext := x1\<rparr>, [])
             | (Inr s, x1) \<Rightarrow>
                 (let w1 = w\<lparr>ext := x1, open_socks := insert s (open_socks w)\<rparr> in
                  case connect_ex E s (host disconnected_peer) (port disconnected_peer) x1 of
                    (Some e, x2) \<Rightarrow> (Some e, w1\<lparr>ext := x2\<rparr>, [SocketCreated s])
                  | (None, x2) \<Rightarrow>
                      (let remote_peer = as_connected disconnected_peer s in
                       then_do (None, w1\<lparr>ext := x2\<rparr>, [SocketCreated s]) (\<lambda>w.
                       then_do (register s (Peer remote_peer) w)
                         (call (PeerConnected remote_peer) (handle_peer_connected E remote_peer)))))))"

text \<open>\<^verbatim>\<open>self.managers\<close>, as \<^verbatim>\<open>__init__\<close> builds it.\<close>

definition managers :: "manager list" where
  "managers = [NetworkManager, ChainManager]"

fun step_managers_loop :: "'x env \<Rightarrow> int \<Rightarrow> manager list \<Rightarrow> 'x world \<Rightarrow> 'x outcome" where
  "step_managers_loop E current_time [] w = (None, w, [])"
| "step_managers_loop E current_time (m # ms) w =
     (if \<not> running w then (None, w, [])
      else then_do (call (ManagerStep m current_time) (step E m current_time) w)
             (step_managers_loop E current_time ms))"

definition step_managers :: "'x env \<Rightarrow> int \<Rightarrow> 'x world \<Rightarrow> 'x outcome" where
  "step_managers E current_time w = step_managers_loop E current_time managers w"

fun dispatch_events :: "'x env \<Rightarrow> (selector_key \<times> int) list \<Rightarrow> 'x world \<Rightarrow> 'x outcome" where
  "dispatch_events E [] w = (None, w, [])"
| "dispatch_events E ((key, mask') # events) w =
     (if \<not> running w then (None, w, [])
      else then_do
             (then_do (None, w, [Dispatch key mask']) (\<lambda>w.
                case snd key of
                  LISTENING_SOCKET \<Rightarrow> handle_incoming_connection E (fst key) w
                | Peer _ \<Rightarrow> handle_remote_peer_selector_event E key mask' w))
             (dispatch_events E events))"

definition handle_selector_events :: "'x env \<Rightarrow> 'x world \<Rightarrow> 'x outcome" where
  "handle_selector_events E w =
     (case select E (fd_to_key w) (ext w) of
        (Inl e, x1) \<Rightarrow> (Some e, w\<lparr>ext := x1\<rparr>, [Select])
      | (Inr events, x1) \<Rightarrow>
          then_do (None, w\<lparr>ext := x1\<rparr>, [Select]) (dispatch_events E events))"

text \<open>One iteration of the loop of \<^verbatim>\<open>run\<close>: the body of \<^verbatim>\<open>while self.running\<close>.\<close>

definition run_iteration :: "'x env \<Rightarrow> 'x world \<Rightarrow> 'x outcome" where
  "run_iteration E w =
     (let current_time = time E (ext w) in
      then_do (step_managers E current_time w) (handle_selector_events E))"

text \<open>
  The loop may run for ever, so it has fuel: the number of iterations it may start.
  \<open>None\<close> is a loop that is still running when the fuel is used up.
\<close>

fun while_running :: "'x env \<Rightarrow> nat \<Rightarrow> 'x world \<Rightarrow> 'x outcome option" where
  "while_running E 0 w = (if running w then None else Some (None, w, []))"
| "while_running E (Suc n) w =
     (if \<not> running w then Some (None, w, [])
      else
        (case run_iteration E w of
           (Some e, w', evs) \<Rightarrow> Some (Some e, w', evs)
         | (None, w', evs) \<Rightarrow>
             (case while_running E n w' of
                None \<Rightarrow> None
              | Some (r, w'', evs') \<Rightarrow> Some (r, w'', evs @ evs'))))"

definition run :: "'x env \<Rightarrow> nat \<Rightarrow> 'x world \<Rightarrow> 'x outcome option" where
  "run E fuel w =
     (case while_running E fuel (w\<lparr>running := True\<rparr>) of
        None \<Rightarrow> None
      | Some (r, w', evs) \<Rightarrow>
          (let logged = (case r of
                           None \<Rightarrow> []
                         | Some e \<Rightarrow> [LogError ''Uncaught exception in LocalPeer.run()'', LogTraceback e])
           in case selector_close w' of
                (r', w'', evs') \<Rightarrow> Some (r', w'', evs @ logged @ evs')))"

definition stop :: "'x world \<Rightarrow> 'x world" where
  "stop w = w\<lparr>running := False\<rparr>"

section \<open>Reading the events\<close>

text \<open>The events that concern one peer: its disconnection and the steps of it.\<close>

fun about_peer :: "ConnectedRemotePeer \<Rightarrow> event \<Rightarrow> bool" where
  "about_peer p (Disconnect q reason) = (q = p)"
| "about_peer p (Unregister s) = (s = sock p)"
| "about_peer p (SockClose s) = (s = sock p)"
| "about_peer p (PeerDisconnected q) = (q = p)"
| "about_peer p _ = False"

fun is_ManagerStep :: "event \<Rightarrow> bool" where
  "is_ManagerStep (ManagerStep m t) = True"
| "is_ManagerStep _ = False"

text \<open>
  The events that the handling of a readiness event makes, and those that one iteration
  of the loop of \<^verbatim>\<open>run\<close> makes.
\<close>

fun handler_event :: "event \<Rightarrow> bool" where
  "handler_event (Dispatch k m) = True"
| "handler_event (Disconnect p reason) = True"
| "handler_event (Unregister s) = True"
| "handler_event (SockClose s) = True"
| "handler_event (PeerDisconnected p) = True"
| "handler_event (Accepted s) = True"
| "handler_event (Register s d) = True"
| "handler_event (PeerConnected p) = True"
| "handler_event _ = False"

definition loop_event :: "event \<Rightarrow> bool" where
  "loop_event ev = (handler_event ev \<or> is_ManagerStep ev \<or> ev = Select)"

section \<open>Example collaborators and worlds\<close>

text \<open>
  Concrete inputs for the examples. In \<open>idle_env\<close> nothing happens: no connection
  arrives, no socket can be made, the managers do nothing. In \<open>counting_env\<close> the
  component \<open>ext\<close> counts the sockets made so far, which is the identity of the next one,
  and every \<^verbatim>\<open>accept\<close> and \<^verbatim>\<open>socket.socket\<close> succeeds.
\<close>

definition idle_env :: "'x env" where
  "idle_env =
     \<lparr>platform = ''linux'',
      time = (\<lambda>x. 0),
      select = (\<lambda>m x. (Inr [], x)),
      accept = (\<lambda>l x. (Inl (OSError ''Resource temporarily unavailable''), x)),
      getpeername = (\<lambda>s x. Inl (OSError ''Transport endpoint is not connected'')),
      recv = (\<lambda>s x. (Inr [], x)),
      socket_new = (\<lambda>x. (Inl (OSError ''Too many open files''), x)),
      connect_ex = (\<lambda>s h pt x. (None, x)),
      step = (\<lambda>m t w. (None, w)),
      handle_peer_connected = (\<lambda>p w. (None, w)),
      handle_peer_disconnected = (\<lambda>p w. (None, w)),
      get_active_peers = (\<lambda>w. []),
      handle_receive_data = (\<lambda>p d w. (None, w)),
      handle_can_send = (\<lambda>p s w. (None, w))\<rparr>"

definition counting_env :: "string \<Rightarrow> nat env" where
  "counting_env pf =
     idle_env\<lparr>platform := pf,
              time := int,
              accept := (\<lambda>l x. (Inr x, Suc x)),
              getpeername := (\<lambda>s x. Inr (''10.0.0.7'', 40000 + int s)),
              socket_new := (\<lambda>x. (Inr x, Suc x))\<rparr>"

definition listening_world :: "nat world" where
  "listening_world =
     \<lparr>running = True, fd_to_key = [(0, LISTENING_SOCKET)], selector_closed = False,
      open_socks = {0}, ext = 1\<rparr>"

definition example_peer :: ConnectedRemotePeer where
  "example_peer =
     \<lparr>host = ''10.0.0.5'', port = Port 2412, direction = OUTGOING, hello_received = True, sock = 3\<rparr>"

definition example_world :: "'x \<Rightarrow> 'x world" where
  "example_world x =
     \<lparr>running = True, fd_to_key = [(0, LISTENING_SOCKET), (3, Peer example_peer)],
      selector_closed = False, open_socks = {0, 3}, ext = x\<rparr>"

text \<open>A world with 64 registered sockets: the listening socket and 63 peers.\<close>

definition full_world :: "nat world" where
  "full_world =
     \<lparr>running = True,
      fd_to_key = (0, LISTENING_SOCKET)
        # map (\<lambda>i. (i, Peer (new_ConnectedRemotePeer ''10.0.0.7'' (Port (40000 + int i)) INCOMING i))) [1..<64],
      selector_closed = False, open_socks = {0..<64}, ext = 64\<rparr>"

definition example_serialize :: "Transaction \<Rightarrow> bytes" where
  "example_serialize t =
     concat (map (\<lambda>i. hash (output_reference i)) (inputs t)) @ concat (map public_key (outputs t))"

definition example_input :: Input where
  "example_input =
     \<lparr>output_reference = \<lparr>hash = replicate 32 CHR ''a'', index = 1\<rparr>,
      signature = SECP256k1Signature (replicate 64 CHR ''y'')\<rparr>"

definition example_output :: Output where
  "example_output = \<lparr>amount = 30, public_key = replicate 64 CHR ''x''\<rparr>"

section \<open>Properties of the address book\<close>


lemma overwrite_peers_none_qualifying:
  assumes "\<not> list_ex (\<lambda>p. direction p = OUTGOING \<and> hello_received p) peers"
  shows "overwrite_peers peers d = os_remove ''peers.json'' d"
proof -
  have "filter (\<lambda>p. direction p = OUTGOING \<and> hello_received p) peers = []"
    using assms by (induction peers) auto
  then show ?thesis
    by (simp add: overwrite_peers_def)
qed



text \<open>
  Claim C8. When no peer of the list is both outgoing and handshake-completed,
  \<^verbatim>\<open>overwrite_peers\<close> is the call \<^verbatim>\<open>os.remove("peers.json")\<close> and nothing else, so with
  no such file on the disk it raises \<^verbatim>\<open>FileNotFoundError\<close> (and leaves the disk as it
  was): the path is not a no-op on a missing file.
\<close>

theorem overwrite_peers_remove_missing_file:
  assumes "\<not> list_ex (\<lambda>p. direction p = OUTGOING \<and> hello_received p) peers"
  shows "overwrite_peers peers d = os_remove ''peers.json'' d
    \<and> (d ''peers.json'' = None \<longrightarrow> overwrite_peers peers d = (Some FileNotFoundError, d))
    \<and> (d ''peers.json'' \<noteq> None \<longrightarrow> overwrite_peers peers d = (None, d(''peers.json'' := None)))"
  by (auto simp add: overwrite_peers_none_qualifying [OF assms] os_remove_def)

theorem overwrite_peers_remove_missing_file_witness:
  "overwrite_peers
     [\<lparr>host = ''10.0.0.2'', port = Port 50111, direction = INCOMING, hello_received = True, sock = 4\<rparr>,
      \<lparr>host = ''10.0.0.3'', port = Port 2412, direction = OUTGOING, hello_received = False, sock = 5\<rparr>]
     Map.empty
   = (Some FileNotFoundError, Map.empty)
   \<and> overwrite_peers [] Map.empty = (Some FileNotFoundError, Map.empty)"
  using overwrite_peers_remove_missing_file
    [of "[\<lparr>host = ''10.0.0.2'', port = Port 50111, direction = INCOMING, hello_received = True, sock = 4\<rparr>,
          \<lparr>host = ''10.0.0.3'', port = Port 2412, direction = OUTGOING, hello_received = False, sock = 5\<rparr>]"
        Map.empty]
    overwrite_peers_remove_missing_file [of "[]" Map.empty]
  by (simp add: os_remove_def)

section \<open>Properties of the block subsidy\<close>

lemma div_succ_int:
  fixes h :: int
  assumes "0 < i"
  shows "(h + 1) div i = (if (h + 1) mod i = 0 then h div i + 1 else h div i)"
proof (cases "h mod i + 1 = i")
  case True
  have "h + 1 = i * (h div i) + (h mod i + 1)"
    using mult_div_mod_eq [of i h] by simp
  then have "h + 1 = i * (h div i + 1) + 0"
    unfolding True by (simp add: algebra_simps)
  then have "(h + 1) div i = h div i + 1" "(h + 1) mod i = 0"
    using assms
    by (metis add.right_neutral nonzero_mult_div_cancel_left less_irrefl,
        metis add.right_neutral mod_mult_self1_is_0)
  then show ?thesis by simp
next
  case False
  have r: "0 \<le> h mod i + 1" "h mod i + 1 < i"
    using assms False pos_mod_bound [of i h] pos_mod_sign [of i h] by linarith+
  have e: "h + 1 = i * (h div i) + (h mod i + 1)"
    using mult_div_mod_eq [of i h] by simp
  have "(h + 1) div i = h div i"
    using int_div_pos_eq [OF e r] .
  moreover have "(h + 1) mod i = h mod i + 1"
    using int_mod_pos_eq [OF e r] .
  moreover have "h mod i + 1 \<noteq> 0"
    using pos_mod_sign [OF assms, of h] by linarith
  ultimately show ?thesis by simp
qed

lemma halvings_nonneg: "0 \<le> h \<Longrightarrow> 0 \<le> h div SUBSIDY_HALVING_INTERVAL"
  by (simp add: SUBSIDY_HALVING_INTERVAL_def pos_imp_zdiv_nonneg_iff)

lemma subsidy_step:
  assumes "0 \<le> h"
  shows "get_block_subsidy a (h + 1) =
    (if (h + 1) mod SUBSIDY_HALVING_INTERVAL = 0 then get_block_subsidy a h div 2
     else get_block_subsidy a h)"
proof -
  have i: "0 < SUBSIDY_HALVING_INTERVAL"
    by (simp add: SUBSIDY_HALVING_INTERVAL_def)
  have n: "nat (h div SUBSIDY_HALVING_INTERVAL + 1) = Suc (nat (h div SUBSIDY_HALVING_INTERVAL))"
    using halvings_nonneg [OF assms] by simp
  have d: "x div 2 ^ Suc k = x div 2 ^ k div 2" for x :: int and k
    unfolding power_Suc2 by (rule zdiv_zmult2_eq) simp
  show ?thesis
    unfolding get_block_subsidy_def div_succ_int [OF i, of h]
    by (simp only: n d if_distrib [of nat] if_distrib [of "\<lambda>k. 2 ^ k"]
          if_distrib [of "\<lambda>k. INITIAL_SUBSIDY a div k"] cong: if_cong)
qed

lemma subsidy_mono:
  assumes "0 \<le> a" "0 \<le> h1" "h1 \<le> h2"
  shows "get_block_subsidy a h2 \<le> get_block_subsidy a h1"
proof -
  have "h1 div SUBSIDY_HALVING_INTERVAL \<le> h2 div SUBSIDY_HALVING_INTERVAL"
    using assms(3) by (simp add: SUBSIDY_HALVING_INTERVAL_def zdiv_mono1)
  then have "(2::int) ^ nat (h1 div SUBSIDY_HALVING_INTERVAL) \<le> 2 ^ nat (h2 div SUBSIDY_HALVING_INTERVAL)"
    by (simp add: power_increasing)
  moreover have "0 \<le> INITIAL_SUBSIDY a"
    using assms(1) by (simp add: INITIAL_SUBSIDY_def)
  ultimately show ?thesis
    unfolding get_block_subsidy_def by (simp add: zdiv_mono2)
qed

lemma subsidy_zero:
  assumes "0 \<le> a" "10 * a < 2 ^ 30" "31500000 \<le> h"
  shows "get_block_subsidy a h = 0"
proof -
  have "31500000 div SUBSIDY_HALVING_INTERVAL \<le> h div SUBSIDY_HALVING_INTERVAL"
    using assms(3) unfolding SUBSIDY_HALVING_INTERVAL_def by (rule zdiv_mono1) simp
  then have "30 \<le> nat (h div SUBSIDY_HALVING_INTERVAL)"
    by (simp add: SUBSIDY_HALVING_INTERVAL_def)
  then have "(2::int) ^ 30 \<le> 2 ^ nat (h div SUBSIDY_HALVING_INTERVAL)"
    by (simp only: power_increasing one_le_numeral)
  then have "INITIAL_SUBSIDY a < 2 ^ nat (h div SUBSIDY_HALVING_INTERVAL)"
    using assms(2) by (simp add: INITIAL_SUBSIDY_def)
  then show ?thesis
    unfolding get_block_subsidy_def using assms(1) by (simp add: INITIAL_SUBSIDY_def)
qed

lemma subsidy_first_intervals:
  "get_block_subsidy a 0 = 10 * a"
  "get_block_subsidy a 1049999 = 10 * a"
  "get_block_subsidy a 1050000 = 5 * a"
  by (simp_all add: get_block_subsidy_def INITIAL_SUBSIDY_def SUBSIDY_HALVING_INTERVAL_def)

lemma subsidy_last_interval:
  "2 ^ 29 \<le> 10 * a \<Longrightarrow> 10 * a < 2 ^ 30 \<Longrightarrow> get_block_subsidy a 31499999 = 1"
  by (simp add: get_block_subsidy_def INITIAL_SUBSIDY_def SUBSIDY_HALVING_INTERVAL_def
        int_div_pos_eq [where r = "10 * a - 536870912"])

text \<open>
  Claim C3. Let a coin be \<open>c\<close> smallest units, with 10 coins at least \<open>2^29\<close> and less
  than \<open>2^30\<close> units (100,000,000 units per coin is such a \<open>c\<close>). Then over the heights
  \<open>h \<ge> 0\<close> the subsidy is non-increasing; from one height to the next it is halved (by
  integer division) when the next height is a multiple of 1,050,000 and is unchanged
  otherwise; it is zero from height 31,500,000 on; and it is 10 coins at heights 0 and
  1,049,999, 5 coins at 1,050,000, one unit at 31,499,999 and zero at 31,500,000.
\<close>

theorem get_block_subsidy_schedule:
  assumes "2 ^ 29 \<le> 10 * c" and "10 * c < 2 ^ 30"
  shows "(\<forall>h1 h2. 0 \<le> h1 \<and> h1 \<le> h2 \<longrightarrow> get_block_subsidy c h2 \<le> get_block_subsidy c h1)
    \<and> (\<forall>h. 0 \<le> h \<longrightarrow> get_block_subsidy c (h + 1) =
          (if (h + 1) mod 1050000 = 0 then get_block_subsidy c h div 2 else get_block_subsidy c h))
    \<and> (\<forall>h. 31500000 \<le> h \<longrightarrow> get_block_subsidy c h = 0)
    \<and> get_block_subsidy c 0 = 10 * c
    \<and> get_block_subsidy c 1049999 = 10 * c
    \<and> get_block_subsidy c 1050000 = 5 * c
    \<and> get_block_subsidy c 31499999 = 1
    \<and> get_block_subsidy c 31500000 = 0"
proof -
  have c: "0 \<le> c" using assms(1) by simp
  have mono: "\<forall>h1 h2. 0 \<le> h1 \<and> h1 \<le> h2 \<longrightarrow> get_block_subsidy c h2 \<le> get_block_subsidy c h1"
    using subsidy_mono [OF c] by blast
  have halve: "\<forall>h. 0 \<le> h \<longrightarrow> get_block_subsidy c (h + 1) =
      (if (h + 1) mod 1050000 = 0 then get_block_subsidy c h div 2 else get_block_subsidy c h)"
    using subsidy_step [of _ c] by (simp add: SUBSIDY_HALVING_INTERVAL_def)
  have zero: "\<forall>h. 31500000 \<le> h \<longrightarrow> get_block_subsidy c h = 0"
    using subsidy_zero [OF c assms(2)] by blast
  have last: "get_block_subsidy c 31499999 = 1"
    using subsidy_last_interval [OF assms] .
  have z: "get_block_subsidy c 31500000 = 0"
    using zero by simp
  show ?thesis
    using mono halve zero last z subsidy_first_intervals [of c] by blast
qed

theorem get_block_subsidy_schedule_witness:
  "get_block_subsidy 100000000 0 = 1000000000
   \<and> get_block_subsidy 100000000 1049999 = 1000000000
   \<and> get_block_subsidy 100000000 1050000 = 500000000
   \<and> get_block_subsidy 100000000 31499999 = 1
   \<and> get_block_subsidy 100000000 31500000 = 0
   \<and> get_block_subsidy 100000000 40000000 = 0
   \<and> get_block_subsidy 100000000 2100000 = get_block_subsidy 100000000 2099999 div 2
   \<and> get_block_subsidy 100000000 2100000 \<le> get_block_subsidy 100000000 7"
proof -
  have a: "(2::int) ^ 29 \<le> 10 * 100000000" and b: "10 * 100000000 < (2::int) ^ 30"
    by simp_all
  note t = get_block_subsidy_schedule [OF a b]
  from t have m: "0 \<le> h1 \<and> h1 \<le> h2 \<longrightarrow> get_block_subsidy 100000000 h2 \<le> get_block_subsidy 100000000 h1" for h1 h2
    by blast
  from t have s: "0 \<le> h \<longrightarrow> get_block_subsidy 100000000 (h + 1) =
      (if (h + 1) mod 1050000 = 0 then get_block_subsidy 100000000 h div 2
       else get_block_subsidy 100000000 h)" for h
    by blast
  from t have z: "31500000 \<le> h \<longrightarrow> get_block_subsidy 100000000 h = 0" for h
    by blast
  have "get_block_subsidy 100000000 2100000 = get_block_subsidy 100000000 2099999 div 2"
    using s [of 2099999] by simp
  moreover have "get_block_subsidy 100000000 2100000 \<le> get_block_subsidy 100000000 7"
    using m [of 7 2100000] by simp
  moreover have "get_block_subsidy 100000000 40000000 = 0"
    using z [of 40000000] by simp
  ultimately show ?thesis
    using t by simp
qed

section \<open>Properties of the transaction validation\<close>

lemma violates_non_signature:
  "violates ser M S t Non_signature_Signature_class_used
     = list_ex (\<lambda>i. \<not> is_signature (signature i)) (inputs t)"
proof -
  have "(\<not> is_signature s) = (s = SignableEquivalent)" for s
    by (cases s) simp_all
  then show ?thesis by (simp add: list_ex_iff)
qed

lemma validate_first_violation:
  "validate_non_coinbase_transaction_by_itself ser M S t =
     (case find (violates ser M S t)
        [No_inputs, No_outputs, Exceeds_max_size, Output_reference_referenced_more_than_once,
         Null_reference_in_non_coinbase_transaction, Non_signature_Signature_class_used, Out_of_range]
      of None \<Rightarrow> Inr () | Some e \<Rightarrow> Inl e)"
  unfolding validate_non_coinbase_transaction_by_itself_def find.simps
    violates_non_signature
  by (simp add: money_range_def list_ex_iff not_le not_less)

text \<open>
  Claim C4. A transaction that breaks any of the seven rules (no inputs, no outputs,
  serialized size over the maximum, an output reference used by two inputs, a null output
  reference, a placeholder in a signature slot, total output value outside the supply
  range) is rejected by \<^verbatim>\<open>validate_non_coinbase_transaction_by_itself\<close>, and the error
  names a rule that the transaction does break; when it breaks one rule only, the error is
  the one of that rule.
\<close>

theorem validate_non_coinbase_rejects:
  assumes "violates ser M S t k"
  shows "(\<exists>e. validate_non_coinbase_transaction_by_itself ser M S t = Inl e \<and> violates ser M S t e)
    \<and> ((\<forall>e. violates ser M S t e \<longrightarrow> e = k)
         \<longrightarrow> validate_non_coinbase_transaction_by_itself ser M S t = Inl k)"
proof -
  let ?rules = "[No_inputs, No_outputs, Exceeds_max_size, Output_reference_referenced_more_than_once,
         Null_reference_in_non_coinbase_transaction, Non_signature_Signature_class_used, Out_of_range]"
  have "k \<in> set ?rules" by (cases k) simp_all
  then obtain e where f: "find (violates ser M S t) ?rules = Some e"
    using assms by (cases "find (violates ser M S t) ?rules") (auto simp only: find_None_iff)
  then have v: "violates ser M S t e"
    by (auto simp only: find_Some_iff)
  have r: "validate_non_coinbase_transaction_by_itself ser M S t = Inl e"
    unfolding validate_first_violation f by simp
  show ?thesis using r v by auto
qed

theorem validate_non_coinbase_rejects_witness:
  "validate_non_coinbase_transaction_by_itself example_serialize 1000000 2100000000000000
     \<lparr>inputs = [example_input, example_input], outputs = [example_output]\<rparr>
   = Inl Output_reference_referenced_more_than_once
   \<and> validate_non_coinbase_transaction_by_itself example_serialize 1000000 2100000000000000
     \<lparr>inputs = [], outputs = [example_output]\<rparr>
   = Inl No_inputs"
proof -
  let ?dup = "\<lparr>inputs = [example_input, example_input], outputs = [example_output]\<rparr>"
  let ?none = "\<lparr>inputs = [], outputs = [example_output]\<rparr>"
  have d: "violates example_serialize 1000000 2100000000000000 ?dup e
      = (e = Output_reference_referenced_more_than_once)" for e
    by (cases e)
       (simp_all add: example_serialize_def example_input_def example_output_def
          is_null_def)
  have n: "violates example_serialize 1000000 2100000000000000 ?none e = (e = No_inputs)" for e
    by (cases e)
       (simp_all add: example_serialize_def example_input_def example_output_def
          is_null_def)
  show ?thesis
    using validate_non_coinbase_rejects
        [of example_serialize 1000000 2100000000000000 ?dup Output_reference_referenced_more_than_once]
      validate_non_coinbase_rejects [of example_serialize 1000000 2100000000000000 ?none No_inputs]
    by (simp add: d n)
qed

section \<open>Properties of LocalPeer\<close>

subsection \<open>Sequencing\<close>

lemma then_do_None [simp]:
  "then_do (None, w, evs) f = (case f w of (r', w', evs') \<Rightarrow> (r', w', evs @ evs'))"
  by (simp add: then_do_def)

lemma then_do_Some [simp]: "then_do (Some e, w, evs) f = (Some e, w, evs)"
  by (simp add: then_do_def)

lemma then_do_events:
  assumes "list_all P (snd (snd r))" and "\<And>w. list_all P (snd (snd (f w)))"
  shows "list_all P (snd (snd (then_do r f)))"
proof (cases r)
  case (fields x w evs)
  show ?thesis
  proof (cases x)
    case None
    obtain r' w' evs' where f: "f w = (r', w', evs')" by (cases "f w")
    have "list_all P evs'" using assms(2) [of w] f by simp
    then show ?thesis using assms(1) fields None f by simp
  next
    case (Some e)
    then show ?thesis using assms(1) fields by simp
  qed
qed

subsection \<open>Disconnecting\<close>

lemma disconnect_not_registered:
  assumes "map_of (fd_to_key w) (sock p) = None"
  shows "disconnect E p reason w = (None, w, [Disconnect p reason, Unregister (sock p)])"
  using assms by (simp add: disconnect_def unregister_def)

lemma disconnect_registered:
  assumes "map_of (fd_to_key w) (sock p) \<noteq> None"
  shows "disconnect E p reason w =
    (None,
     snd (handle_peer_disconnected E p
        (w\<lparr>fd_to_key := filter (\<lambda>k. fst k \<noteq> sock p) (fd_to_key w),
           open_socks := open_socks w - {sock p}\<rparr>)),
     [Disconnect p reason, Unregister (sock p), SockClose (sock p), PeerDisconnected p])"
  using assms
  by (simp add: disconnect_def unregister_def sock_close_def call_def split: prod.split)

lemma disconnect_returns: "fst (disconnect E p reason w) = None"
  by (cases "map_of (fd_to_key w) (sock p) = None")
     (simp_all add: disconnect_not_registered disconnect_registered)

lemma disconnect_events:
  "snd (snd (disconnect E p reason w)) =
     (if map_of (fd_to_key w) (sock p) = None then [Disconnect p reason, Unregister (sock p)]
      else [Disconnect p reason, Unregister (sock p), SockClose (sock p), PeerDisconnected p])"
  by (simp add: disconnect_not_registered disconnect_registered)

text \<open>
  Claim C9. \<^verbatim>\<open>disconnect\<close> unregisters the socket, closes it and notifies the Network
  Manager, in that order, inside one block that swallows every exception. When
  \<^verbatim>\<open>selector.unregister\<close> raises (the socket is not registered), the call still returns
  normally, the socket is not closed and \<^verbatim>\<open>handle_peer_disconnected\<close> is not invoked: the
  world is the one before the call, so the Network Manager's view of the active peers
  is unchanged, and a peer that was in it is still in it.
\<close>

theorem disconnect_failed_unregister:
  "(map_of (fd_to_key w) (sock p) = None \<longrightarrow>
      disconnect E p reason w = (None, w, [Disconnect p reason, Unregister (sock p)])
      \<and> open_socks (fst (snd (disconnect E p reason w))) = open_socks w
      \<and> get_active_peers E (fst (snd (disconnect E p reason w))) = get_active_peers E w
      \<and> (p \<in> set (get_active_peers E w)
           \<longrightarrow> p \<in> set (get_active_peers E (fst (snd (disconnect E p reason w))))))
   \<and> (map_of (fd_to_key w) (sock p) \<noteq> None \<longrightarrow>
        fst (disconnect E p reason w) = None
        \<and> snd (snd (disconnect E p reason w)) =
            [Disconnect p reason, Unregister (sock p), SockClose (sock p), PeerDisconnected p])"
  by (simp add: disconnect_not_registered disconnect_registered)

theorem disconnect_failed_unregister_witness:
  "disconnect
     (idle_env\<lparr>get_active_peers := ext,
               handle_peer_disconnected := (\<lambda>p w. (None, w\<lparr>ext := removeAll p (ext w)\<rparr>))\<rparr>)
     example_peer ''OS error''
     \<lparr>running = True, fd_to_key = [(0, LISTENING_SOCKET)], selector_closed = False,
      open_socks = {0, 3}, ext = [example_peer]\<rparr>
   = (None,
      \<lparr>running = True, fd_to_key = [(0, LISTENING_SOCKET)], selector_closed = False,
       open_socks = {0, 3}, ext = [example_peer]\<rparr>,
      [Disconnect example_peer ''OS error'', Unregister 3])
   \<and> snd (snd (disconnect
       (idle_env\<lparr>get_active_peers := ext,
                 handle_peer_disconnected := (\<lambda>p w. (None, w\<lparr>ext := removeAll p (ext w)\<rparr>))\<rparr>)
       example_peer ''OS error'' (example_world [example_peer])))
     = [Disconnect example_peer ''OS error'', Unregister 3, SockClose 3, PeerDisconnected example_peer]"
  using disconnect_failed_unregister
    [of "\<lparr>running = True, fd_to_key = [(0, LISTENING_SOCKET)], selector_closed = False,
          open_socks = {0, 3}, ext = [example_peer]\<rparr>"
        example_peer
        "idle_env\<lparr>get_active_peers := ext,
               handle_peer_disconnected := (\<lambda>p w. (None, w\<lparr>ext := removeAll p (ext w)\<rparr>))\<rparr>"
        "''OS error''"]
    disconnect_failed_unregister
    [of "example_world [example_peer]" example_peer
        "idle_env\<lparr>get_active_peers := ext,
               handle_peer_disconnected := (\<lambda>p w. (None, w\<lparr>ext := removeAll p (ext w)\<rparr>))\<rparr>"
        "''OS error''"]
  by (simp add: example_peer_def example_world_def)

subsection \<open>Exceptions while a peer's readiness event is handled\<close>

lemma disconnect_about_peer: "list_all (about_peer p) (snd (snd (disconnect E p reason w)))"
  by (simp add: disconnect_events)

lemma disconnect_cases:
  obtains w' evs where "disconnect E p reason w = (None, w', Disconnect p reason # evs)"
    and "list_all (about_peer p) evs"
  using disconnect_returns [of E p reason w] disconnect_events [of E p reason w]
  by (cases "disconnect E p reason w") (auto split: if_splits)

lemma remote_peer_event_body_about_peer:
  "list_all (about_peer p) (snd (snd (remote_peer_event_body E s p m w)))"
proof -
  obtain w' evs where d: "disconnect E p ''connection closed remotely'' (w\<lparr>ext := snd (recv E s (ext w))\<rparr>)
      = (None, w', Disconnect p ''connection closed remotely'' # evs)" and a: "list_all (about_peer p) evs"
    by (rule disconnect_cases)
  show ?thesis
    using d a
    by (auto simp add: remote_peer_event_body_def then_do_def
          split: prod.splits sum.splits option.splits if_splits)
qed

lemma handle_remote_peer_selector_event_returned:
  assumes "remote_peer_event_body E s p m w = (None, w1, evs1)"
  shows "handle_remote_peer_selector_event E (s, Peer p) m w = (None, w1, evs1)"
  using assms by (simp add: handle_remote_peer_selector_event_def)

lemma handle_remote_peer_selector_event_raised:
  assumes "remote_peer_event_body E s p m w = (Some e, w1, evs1)"
  shows "handle_remote_peer_selector_event E (s, Peer p) m w =
    (None,
     fst (snd (disconnect E p (if is_OSError e then ''OS error'' else ''Exception'') w1)),
     evs1 @ snd (snd (disconnect E p (if is_OSError e then ''OS error'' else ''Exception'') w1)))"
proof -
  obtain w2 evs2 where "disconnect E p (if is_OSError e then ''OS error'' else ''Exception'') w1
      = (None, w2, Disconnect p (if is_OSError e then ''OS error'' else ''Exception'') # evs2)"
    by (rule disconnect_cases)
  then show ?thesis
    using assms by (simp add: handle_remote_peer_selector_event_def)
qed

lemma handle_remote_peer_selector_event_about_peer:
  "list_all (about_peer p) (snd (snd (handle_remote_peer_selector_event E (s, Peer p) m w)))"
proof (cases "remote_peer_event_body E s p m w")
  case (fields r w1 evs1)
  have b: "list_all (about_peer p) evs1"
    using remote_peer_event_body_about_peer [of p E s m w] fields by simp
  show ?thesis
  proof (cases r)
    case None
    then show ?thesis
      using fields b by (simp add: handle_remote_peer_selector_event_returned)
  next
    case (Some e)
    then show ?thesis
      using fields b disconnect_about_peer [of p E "if is_OSError e then ''OS error'' else ''Exception''" w1]
      by (simp add: handle_remote_peer_selector_event_raised)
  qed
qed

text \<open>
  Claim C2. For the key of a peer, \<^verbatim>\<open>handle_remote_peer_selector_event\<close> always returns
  normally: no exception of the \<^verbatim>\<open>try\<close> body leaves it. When the body raises \<open>e\<close>, an
  \<^verbatim>\<open>OSError\<close> or any other exception, the method is the body's effects followed by
  \<^verbatim>\<open>disconnect\<close> of that peer (with the reason \<^verbatim>\<open>"OS error"\<close> or \<^verbatim>\<open>"Exception"\<close>), and
  every event of the method concerns that peer and no other.
\<close>

theorem handle_remote_peer_selector_event_catches:
  "fst (handle_remote_peer_selector_event E (s, Peer p) m w) = None
   \<and> list_all (about_peer p) (snd (snd (handle_remote_peer_selector_event E (s, Peer p) m w)))
   \<and> (\<forall>e w1 evs1. remote_peer_event_body E s p m w = (Some e, w1, evs1) \<longrightarrow>
        handle_remote_peer_selector_event E (s, Peer p) m w =
          (None,
           fst (snd (disconnect E p (if is_OSError e then ''OS error'' else ''Exception'') w1)),
           evs1 @ snd (snd (disconnect E p (if is_OSError e then ''OS error'' else ''Exception'') w1)))
        \<and> Disconnect p (if is_OSError e then ''OS error'' else ''Exception'')
             \<in> set (snd (snd (handle_remote_peer_selector_event E (s, Peer p) m w))))"
proof (intro conjI allI impI)
  show "fst (handle_remote_peer_selector_event E (s, Peer p) m w) = None"
  proof (cases "remote_peer_event_body E s p m w")
    case (fields r w1 evs1)
    then show ?thesis
      by (cases r)
         (simp_all add: handle_remote_peer_selector_event_returned
            handle_remote_peer_selector_event_raised)
  qed
  show "list_all (about_peer p) (snd (snd (handle_remote_peer_selector_event E (s, Peer p) m w)))"
    by (rule handle_remote_peer_selector_event_about_peer)
next
  fix e w1 evs1
  assume b: "remote_peer_event_body E s p m w = (Some e, w1, evs1)"
  show r: "handle_remote_peer_selector_event E (s, Peer p) m w =
      (None,
       fst (snd (disconnect E p (if is_OSError e then ''OS error'' else ''Exception'') w1)),
       evs1 @ snd (snd (disconnect E p (if is_OSError e then ''OS error'' else ''Exception'') w1)))"
    by (rule handle_remote_peer_selector_event_raised [OF b])
  show "Disconnect p (if is_OSError e then ''OS error'' else ''Exception'')
      \<in> set (snd (snd (handle_remote_peer_selector_event E (s, Peer p) m w)))"
    unfolding r by (simp add: disconnect_events)
qed

theorem handle_remote_peer_selector_event_catches_witness:
  "handle_remote_peer_selector_event
     (idle_env\<lparr>recv := (\<lambda>s x. (Inl (OSError ''Connection reset by peer''), x))\<rparr>)
     (3, Peer example_peer) EVENT_READ (example_world ())
   = (None,
      \<lparr>running = True, fd_to_key = [(0, LISTENING_SOCKET)], selector_closed = False,
       open_socks = {0}, ext = ()\<rparr>,
      [Disconnect example_peer ''OS error'', Unregister 3, SockClose 3, PeerDisconnected example_peer])
   \<and> handle_remote_peer_selector_event
     (idle_env\<lparr>recv := (\<lambda>s x. (Inr ''junk'', x)),
               handle_receive_data := (\<lambda>p d w. (Some (OtherException ''malformed message''), w))\<rparr>)
     (3, Peer example_peer) EVENT_READ (example_world ())
   = (None,
      \<lparr>running = True, fd_to_key = [(0, LISTENING_SOCKET)], selector_closed = False,
       open_socks = {0}, ext = ()\<rparr>,
      [Disconnect example_peer ''Exception'', Unregister 3, SockClose 3, PeerDisconnected example_peer])"
proof -
  have a: "remote_peer_event_body
      (idle_env\<lparr>recv := (\<lambda>s x. (Inl (OSError ''Connection reset by peer''), x))\<rparr>)
      3 example_peer EVENT_READ (example_world ())
    = (Some (OSError ''Connection reset by peer''), example_world (), [])"
    by (simp add: remote_peer_event_body_def idle_env_def EVENT_READ_def example_world_def)
  have b: "remote_peer_event_body
      (idle_env\<lparr>recv := (\<lambda>s x. (Inr ''junk'', x)),
               handle_receive_data := (\<lambda>p d w. (Some (OtherException ''malformed message''), w))\<rparr>)
      3 example_peer EVENT_READ (example_world ())
    = (Some (OtherException ''malformed message''), example_world (), [])"
    by (simp add: remote_peer_event_body_def idle_env_def EVENT_READ_def example_world_def)
  have d: "disconnect (idle_env\<lparr>recv := r, handle_receive_data := h\<rparr>) example_peer reason (example_world ())
    = (None,
       \<lparr>running = True, fd_to_key = [(0, LISTENING_SOCKET)], selector_closed = False,
        open_socks = {0}, ext = ()\<rparr>,
       [Disconnect example_peer reason, Unregister 3, SockClose 3, PeerDisconnected example_peer])"
    for r h reason
    by (simp add: disconnect_def unregister_def sock_close_def call_def idle_env_def
          example_world_def example_peer_def insert_Diff_if)
  have d': "disconnect (idle_env\<lparr>recv := r\<rparr>) example_peer reason (example_world ())
    = (None,
       \<lparr>running = True, fd_to_key = [(0, LISTENING_SOCKET)], selector_closed = False,
        open_socks = {0}, ext = ()\<rparr>,
       [Disconnect example_peer reason, Unregister 3, SockClose 3, PeerDisconnected example_peer])"
    for r reason
    by (simp add: disconnect_def unregister_def sock_close_def call_def idle_env_def
          example_world_def example_peer_def insert_Diff_if)
  show ?thesis
    using handle_remote_peer_selector_event_catches
      [of "idle_env\<lparr>recv := (\<lambda>s x. (Inl (OSError ''Connection reset by peer''), x))\<rparr>"
          3 example_peer EVENT_READ "example_world ()"]
      handle_remote_peer_selector_event_catches
      [of "idle_env\<lparr>recv := (\<lambda>s x. (Inr ''junk'', x)),
               handle_receive_data := (\<lambda>p d w. (Some (OtherException ''malformed message''), w))\<rparr>"
          3 example_peer EVENT_READ "example_world ()"]
    by (simp add: a b d d')
qed

subsection \<open>The cap on registered sockets\<close>

lemma start_outgoing_connection_at_cap:
  assumes "\<not> selector_closed w" and "max_selector_map_size (platform E) \<le> length (fd_to_key w)"
  shows "start_outgoing_connection E dp w = (None, w, [])"
  using assms by (simp add: start_outgoing_connection_def get_map_def)

lemma max_selector_map_size_values:
  "max_selector_map_size ''linux'' = 512"
  "max_selector_map_size ''win32'' = 64"
  "pf \<noteq> ''linux'' \<Longrightarrow> pf \<noteq> ''win32'' \<Longrightarrow> max_selector_map_size pf = 64"
  by (simp_all add: max_selector_map_size_def MAX_SELECTOR_SIZE_BY_PLATFORM_def)

lemma max_selector_map_size_le: "max_selector_map_size pf \<le> 512"
  by (simp add: max_selector_map_size_def MAX_SELECTOR_SIZE_BY_PLATFORM_def)

text \<open>
  Claim C6. When the selector's map holds at least the cap of the platform (512 on linux,
  64 on win32, 64 on any other platform), \<^verbatim>\<open>start_outgoing_connection\<close> returns normally
  with no event and with the world as it was: no socket is made, nothing is registered,
  the Network Manager is not notified, and every registration is still there.
\<close>

theorem start_outgoing_connection_refused_at_cap:
  assumes "get_map w = Some registered"
    and "max_selector_map_size (platform E) \<le> length registered"
  shows "start_outgoing_connection E disconnected_peer w = (None, w, [])
    \<and> max_selector_map_size ''linux'' = 512
    \<and> max_selector_map_size ''win32'' = 64
    \<and> (platform E \<noteq> ''linux'' \<and> platform E \<noteq> ''win32'' \<longrightarrow> max_selector_map_size (platform E) = 64)"
proof -
  have "\<not> selector_closed w" and "registered = fd_to_key w"
    using assms(1) by (auto simp add: get_map_def split: if_splits)
  then show ?thesis
    using assms(2) start_outgoing_connection_at_cap [of w E disconnected_peer]
      max_selector_map_size_values(1,2) max_selector_map_size_values(3) [of "platform E"]
    by simp
qed

theorem start_outgoing_connection_refused_at_cap_witness:
  "start_outgoing_connection (counting_env ''darwin'')
     \<lparr>host = ''10.0.0.9'', port = Port 2412, direction = OUTGOING, connection_attempts = 0\<rparr>
     full_world
   = (None, full_world, [])
   \<and> length (fd_to_key full_world) = 64"
proof -
  have m: "get_map full_world = Some (fd_to_key full_world)"
    by (simp add: get_map_def full_world_def)
  have c: "max_selector_map_size (platform (counting_env ''darwin'')) \<le> length (fd_to_key full_world)"
    by (simp add: full_world_def counting_env_def idle_env_def max_selector_map_size_def
          MAX_SELECTOR_SIZE_BY_PLATFORM_def)
  show ?thesis
    using start_outgoing_connection_refused_at_cap [OF m c] by (simp add: full_world_def)
qed

lemma handle_incoming_connection_registers:
  assumes "accept E l (ext w) = (Inr conn, x1)"
    and "getpeername E conn x1 = Inr (h, pt)"
    and "map_of (fd_to_key w) conn = None"
  shows "handle_incoming_connection E l w =
    (case handle_peer_connected E (new_ConnectedRemotePeer h (Port pt) INCOMING conn)
            (w\<lparr>ext := x1, open_socks := insert conn (open_socks w),
               fd_to_key := fd_to_key w @ [(conn, Peer (new_ConnectedRemotePeer h (Port pt) INCOMING conn))]\<rparr>)
     of (r, w') \<Rightarrow>
       (r, w', [Accepted conn, Register conn (Peer (new_ConnectedRemotePeer h (Port pt) INCOMING conn)),
                PeerConnected (new_ConnectedRemotePeer h (Port pt) INCOMING conn)]))"
  using assms
  by (simp add: handle_incoming_connection_def register_def call_def Let_def split: prod.split)

lemma counting_incoming:
  assumes "\<forall>k \<in> set (fd_to_key w). fst k < ext w"
  shows "handle_incoming_connection (counting_env pf) l w =
    (None,
     w\<lparr>ext := Suc (ext w), open_socks := insert (ext w) (open_socks w),
       fd_to_key := fd_to_key w @
         [(ext w, Peer (new_ConnectedRemotePeer ''10.0.0.7'' (Port (40000 + int (ext w))) INCOMING (ext w)))]\<rparr>,
     [Accepted (ext w),
      Register (ext w) (Peer (new_ConnectedRemotePeer ''10.0.0.7'' (Port (40000 + int (ext w))) INCOMING (ext w))),
      PeerConnected (new_ConnectedRemotePeer ''10.0.0.7'' (Port (40000 + int (ext w))) INCOMING (ext w))])"
proof -
  have "map_of (fd_to_key w) (ext w) = None"
    using assms by (force simp add: map_of_eq_None_iff)
  then show ?thesis
    by (simp add: handle_incoming_connection_registers [where conn = "ext w" and ?x1.0 = "Suc (ext w)"
          and h = "''10.0.0.7''" and pt = "40000 + int (ext w)"] counting_env_def idle_env_def)
qed

lemma counting_dispatch:
  assumes "\<forall>k \<in> set (fd_to_key w). fst k < ext w" and "running w"
  shows "length (fd_to_key (fst (snd (dispatch_events (counting_env pf)
            (replicate n ((l, LISTENING_SOCKET), m)) w)))) = length (fd_to_key w) + n"
  using assms
proof (induction n arbitrary: w)
  case 0
  show ?case by simp
next
  case (Suc n)
  let ?w = "w\<lparr>ext := Suc (ext w), open_socks := insert (ext w) (open_socks w),
       fd_to_key := fd_to_key w @
         [(ext w, Peer (new_ConnectedRemotePeer ''10.0.0.7'' (Port (40000 + int (ext w))) INCOMING (ext w)))]\<rparr>"
  have inv: "\<forall>k \<in> set (fd_to_key ?w). fst k < ext ?w"
    using Suc.prems(1) by auto
  have run: "running ?w"
    using Suc.prems(2) by simp
  show ?case
    using Suc.IH [OF inv run] Suc.prems(2)
    by (auto simp add: counting_incoming [OF Suc.prems(1)] split: prod.split)
qed

text \<open>
  Claim C10. \<^verbatim>\<open>handle_incoming_connection\<close> makes no comparison with the cap: whenever
  \<^verbatim>\<open>accept\<close> and \<^verbatim>\<open>getpeername\<close> succeed for a socket that is not registered yet, the
  connection is registered and the Network Manager is notified, however many sockets the
  selector holds. With collaborators that accept every connection, \<open>n\<close> readiness events
  of the listening socket leave \<open>1 + n\<close> registered sockets, which for some \<open>n\<close> is more
  than the cap of the platform, whatever the platform.
\<close>

theorem handle_incoming_connection_no_cap:
  "(\<forall>conn x1 h pt.
       accept E l (ext w) = (Inr conn, x1) \<and> getpeername E conn x1 = Inr (h, pt)
       \<and> map_of (fd_to_key w) conn = None \<longrightarrow>
       handle_incoming_connection E l w =
         (case handle_peer_connected E (new_ConnectedRemotePeer h (Port pt) INCOMING conn)
                 (w\<lparr>ext := x1, open_socks := insert conn (open_socks w),
                    fd_to_key := fd_to_key w @ [(conn, Peer (new_ConnectedRemotePeer h (Port pt) INCOMING conn))]\<rparr>)
          of (r, w') \<Rightarrow>
            (r, w', [Accepted conn, Register conn (Peer (new_ConnectedRemotePeer h (Port pt) INCOMING conn)),
                     PeerConnected (new_ConnectedRemotePeer h (Port pt) INCOMING conn)])))
   \<and> (\<forall>n. length (fd_to_key (fst (snd (dispatch_events (counting_env pf)
              (replicate n ((0, LISTENING_SOCKET), EVENT_READ)) listening_world)))) = 1 + n)
   \<and> (\<exists>n. max_selector_map_size (platform (counting_env pf))
            < length (fd_to_key (fst (snd (dispatch_events (counting_env pf)
                (replicate n ((0, LISTENING_SOCKET), EVENT_READ)) listening_world)))))"
proof -
  have inv: "\<forall>k \<in> set (fd_to_key listening_world). fst k < ext listening_world"
    and run: "running listening_world"
    by (simp_all add: listening_world_def)
  have len: "length (fd_to_key (fst (snd (dispatch_events (counting_env pf)
      (replicate n ((0, LISTENING_SOCKET), EVENT_READ)) listening_world)))) = 1 + n" for n
    using counting_dispatch [OF inv run, of pf n 0 EVENT_READ] by (simp add: listening_world_def)
  have "max_selector_map_size (platform (counting_env pf)) < 1 + 512"
    using max_selector_map_size_le [of "platform (counting_env pf)"] by simp
  then have ex: "\<exists>n. max_selector_map_size (platform (counting_env pf))
            < length (fd_to_key (fst (snd (dispatch_events (counting_env pf)
                (replicate n ((0, LISTENING_SOCKET), EVENT_READ)) listening_world))))"
    using len [of 512] by (intro exI [of _ 512]) simp
  show ?thesis
    using len ex handle_incoming_connection_registers [of E l w] by blast
qed

theorem handle_incoming_connection_no_cap_witness:
  "handle_incoming_connection (counting_env ''win32'') 0 listening_world
   = (None,
      \<lparr>running = True,
       fd_to_key = [(0, LISTENING_SOCKET),
                    (1, Peer (new_ConnectedRemotePeer ''10.0.0.7'' (Port 40001) INCOMING 1))],
       selector_closed = False, open_socks = {0, 1}, ext = 2\<rparr>,
      [Accepted 1, Register 1 (Peer (new_ConnectedRemotePeer ''10.0.0.7'' (Port 40001) INCOMING 1)),
       PeerConnected (new_ConnectedRemotePeer ''10.0.0.7'' (Port 40001) INCOMING 1)])
   \<and> length (fd_to_key (fst (snd (dispatch_events (counting_env ''win32'')
        (replicate 64 ((0, LISTENING_SOCKET), EVENT_READ)) listening_world)))) = 65
   \<and> max_selector_map_size ''win32'' = 64"
proof -
  have a: "accept (counting_env ''win32'') 0 (ext listening_world) = (Inr 1, 2)
      \<and> getpeername (counting_env ''win32'') 1 2 = Inr (''10.0.0.7'', 40001)
      \<and> map_of (fd_to_key listening_world) 1 = None"
    by (simp add: counting_env_def idle_env_def listening_world_def)
  note t = handle_incoming_connection_no_cap [of "counting_env ''win32''" 0 listening_world "''win32''"]
  from t a have "handle_incoming_connection (counting_env ''win32'') 0 listening_world =
      (case handle_peer_connected (counting_env ''win32'') (new_ConnectedRemotePeer ''10.0.0.7'' (Port 40001) INCOMING 1)
              (listening_world\<lparr>ext := 2, open_socks := insert 1 (open_socks listening_world),
                 fd_to_key := fd_to_key listening_world @ [(1, Peer (new_ConnectedRemotePeer ''10.0.0.7'' (Port 40001) INCOMING 1))]\<rparr>)
       of (r, w') \<Rightarrow>
         (r, w', [Accepted 1, Register 1 (Peer (new_ConnectedRemotePeer ''10.0.0.7'' (Port 40001) INCOMING 1)),
                  PeerConnected (new_ConnectedRemotePeer ''10.0.0.7'' (Port 40001) INCOMING 1)]))"
    by blast
  moreover from t have "length (fd_to_key (fst (snd (dispatch_events (counting_env ''win32'')
        (replicate 64 ((0, LISTENING_SOCKET), EVENT_READ)) listening_world)))) = 1 + 64"
    by blast
  ultimately show ?thesis
    by (simp add: counting_env_def idle_env_def listening_world_def max_selector_map_size_def
          MAX_SELECTOR_SIZE_BY_PLATFORM_def insert_commute)
qed

subsection \<open>The events of one iteration\<close>

lemma about_peer_handler_event: "about_peer p ev \<Longrightarrow> handler_event ev"
  by (cases ev) simp_all

lemma handle_incoming_connection_events:
  "list_all handler_event (snd (snd (handle_incoming_connection E l w)))"
  by (auto simp add: handle_incoming_connection_def register_def call_def then_do_def Let_def
        split: prod.splits sum.splits option.splits)

lemma handle_remote_peer_selector_event_events:
  "list_all handler_event (snd (snd (handle_remote_peer_selector_event E k m w)))"
proof (cases k)
  case (Pair s d)
  show ?thesis
  proof (cases d)
    case LISTENING_SOCKET
    then show ?thesis
      using Pair by (simp add: handle_remote_peer_selector_event_def)
  next
    case (Peer p)
    have "list_all (about_peer p) (snd (snd (handle_remote_peer_selector_event E (s, Peer p) m w)))"
      by (rule handle_remote_peer_selector_event_about_peer)
    then show ?thesis
      using Pair Peer about_peer_handler_event [of p] by (simp add: list_all_iff)
  qed
qed

lemma dispatch_events_not_running: "\<not> running w \<Longrightarrow> dispatch_events E events w = (None, w, [])"
  by (cases events) auto

lemma dispatch_events_events:
  "list_all handler_event (snd (snd (dispatch_events E events w)))"
proof (induction events arbitrary: w)
  case Nil
  show ?case by simp
next
  case (Cons ev events)
  obtain k m where ev: "ev = (k, m)" by (cases ev)
  have h': "list_all handler_event (snd (snd (case snd k of
        LISTENING_SOCKET \<Rightarrow> handle_incoming_connection E (fst k) w'
      | Peer _ \<Rightarrow> handle_remote_peer_selector_event E k m w')))" for w'
    using handle_incoming_connection_events [of E "fst k" w']
      handle_remote_peer_selector_event_events [of E k m w']
    by (simp split: key_data.split)
  have "list_all handler_event (snd (snd (then_do
      (then_do (None, w, [Dispatch k m]) (\<lambda>w. case snd k of
          LISTENING_SOCKET \<Rightarrow> handle_incoming_connection E (fst k) w
        | Peer _ \<Rightarrow> handle_remote_peer_selector_event E k m w))
      (dispatch_events E events))))"
    by (intro then_do_events h' Cons.IH) simp
  then show ?case
    by (simp add: ev del: then_do_None)
qed

lemma handle_selector_events_shape:
  "\<exists>rest. snd (snd (handle_selector_events E w)) = Select # rest \<and> list_all handler_event rest
      \<and> (\<not> running w \<longrightarrow> rest = [])"
proof (cases "select E (fd_to_key w) (ext w)")
  case (Pair r x1)
  show ?thesis
  proof (cases r)
    case (Inl e)
    then show ?thesis using Pair by (simp add: handle_selector_events_def)
  next
    case (Inr events)
    obtain r' w' evs where d: "dispatch_events E events (w\<lparr>ext := x1\<rparr>) = (r', w', evs)"
      by (cases "dispatch_events E events (w\<lparr>ext := x1\<rparr>)")
    have "list_all handler_event evs"
      using dispatch_events_events [of E events "w\<lparr>ext := x1\<rparr>"] d by simp
    moreover have "\<not> running w \<longrightarrow> evs = []"
      using dispatch_events_not_running [of "w\<lparr>ext := x1\<rparr>" E events] d by simp
    ultimately show ?thesis
      using Pair Inr d by (simp add: handle_selector_events_def)
  qed
qed

lemma handle_selector_events_cases:
  obtains r w' rest where "handle_selector_events E w = (r, w', Select # rest)"
    and "list_all handler_event rest" and "\<not> running w \<Longrightarrow> rest = []"
  using handle_selector_events_shape [of E w]
  by (cases "handle_selector_events E w") auto




subsection \<open>The loop of run\<close>

lemma step_managers_loop_events:
  "list_all is_ManagerStep (snd (snd (step_managers_loop E t ms w)))"
proof (induction ms arbitrary: w)
  case Nil
  show ?case by simp
next
  case (Cons m ms)
  have c: "list_all is_ManagerStep (snd (snd (call (ManagerStep m t) (step E m t) w)))"
    by (simp add: call_def split: prod.split)
  have "list_all is_ManagerStep (snd (snd (then_do (call (ManagerStep m t) (step E m t) w)
      (step_managers_loop E t ms))))"
    by (intro then_do_events c Cons.IH)
  then show ?case by simp
qed

lemma run_iteration_events: "list_all loop_event (snd (snd (run_iteration E w)))"
proof -
  have a: "list_all loop_event (snd (snd (step_managers E (time E (ext w)) w)))"
    using step_managers_loop_events [of E "time E (ext w)" managers w]
    by (simp add: step_managers_def list_all_iff loop_event_def)
  have b: "list_all loop_event (snd (snd (handle_selector_events E w')))" for w'
  proof -
    obtain r w'' rest where "handle_selector_events E w' = (r, w'', Select # rest)"
      and "list_all handler_event rest"
      by (rule handle_selector_events_cases [of E w'])
    then show ?thesis by (simp add: list_all_iff loop_event_def)
  qed
  have "list_all loop_event (snd (snd (then_do (step_managers E (time E (ext w)) w)
      (handle_selector_events E))))"
    by (intro then_do_events a b)
  then show ?thesis by (simp add: run_iteration_def Let_def)
qed

lemma while_running_events:
  "while_running E n w = Some (r, w', evs) \<Longrightarrow> list_all loop_event evs"
proof (induction n arbitrary: w r w' evs)
  case 0
  then show ?case by (simp split: if_splits)
next
  case (Suc n)
  show ?case
  proof (cases "running w")
    case False
    then show ?thesis using Suc.prems by simp
  next
    case True
    obtain r1 w1 evs1 where it: "run_iteration E w = (r1, w1, evs1)"
      by (cases "run_iteration E w")
    have e1: "list_all loop_event evs1"
      using run_iteration_events [of E w] it by simp
    show ?thesis
    proof (cases r1)
      case (Some e)
      then show ?thesis using Suc.prems True it e1 by simp
    next
      case None
      then obtain r2 w2 evs2 where rest: "while_running E n w1 = Some (r2, w2, evs2)"
        and "evs = evs1 @ evs2"
        using Suc.prems True it by (auto split: option.splits)
      then show ?thesis using Suc.IH [OF rest] e1 by simp
    qed
  qed
qed

lemma while_running_stopped: "\<not> running w \<Longrightarrow> while_running E n w = Some (None, w, [])"
  by (cases n) simp_all

lemma while_running_more_fuel:
  "while_running E n w = Some out \<Longrightarrow> while_running E (n + k) w = Some out"
proof (induction n arbitrary: w out)
  case 0
  then show ?case by (simp add: while_running_stopped split: if_splits)
next
  case (Suc n)
  show ?case
  proof (cases "running w")
    case False
    then show ?thesis using Suc.prems by (simp add: while_running_stopped)
  next
    case True
    obtain r1 w1 evs1 where it: "run_iteration E w = (r1, w1, evs1)"
      by (cases "run_iteration E w")
    show ?thesis
    proof (cases r1)
      case (Some e)
      then show ?thesis using Suc.prems True it by auto
    next
      case None
      then obtain out' where rest: "while_running E n w1 = Some out'"
        using Suc.prems True it by (auto split: option.splits)
      show ?thesis
        using Suc.prems True it None rest Suc.IH [OF rest] by auto
    qed
  qed
qed

lemma while_running_exit:
  "while_running E n w = Some (None, w', evs) \<Longrightarrow> \<not> running w'"
proof (induction n arbitrary: w evs)
  case 0
  then show ?case by (simp split: if_splits)
next
  case (Suc n)
  then show ?case
    by (auto split: if_splits prod.splits option.splits)
qed

lemma loop_event_count:
  assumes "list_all loop_event evs"
  shows "count_list evs SelectorClose = 0"
    and "count_list evs (LogError msg) = 0"
  using assms by (auto simp add: count_list_0_iff list_all_iff loop_event_def)

text \<open>
  Claim C7. Whenever \<^verbatim>\<open>run\<close> returns, it returns normally, with the selector closed;
  \<^verbatim>\<open>selector.close\<close> is called exactly once and is the last thing that happens, after
  every event of the loop; and more fuel gives the same result. When an iteration of the
  loop raises, \<^verbatim>\<open>run\<close> does return: the exception is logged (once: the loop itself logs
  no error) and the selector is closed. When the loop ends because the flag is found
  unset, the selector is closed with nothing logged.
\<close>

theorem run_closes_selector_once:
  "(\<forall>r w' evs. run E fuel w = Some (r, w', evs) \<longrightarrow>
       r = None \<and> selector_closed w' \<and> fd_to_key w' = []
       \<and> count_list evs SelectorClose = 1 \<and> last evs = SelectorClose
       \<and> (\<forall>k. run E (fuel + k) w = Some (r, w', evs)))
   \<and> (\<forall>e w1 evs1. while_running E fuel (w\<lparr>running := True\<rparr>) = Some (Some e, w1, evs1) \<longrightarrow>
        run E fuel w =
          Some (None, w1\<lparr>fd_to_key := [], selector_closed := True\<rparr>,
                evs1 @ [LogError ''Uncaught exception in LocalPeer.run()'', LogTraceback e, SelectorClose])
        \<and> count_list evs1 (LogError ''Uncaught exception in LocalPeer.run()'') = 0)
   \<and> (\<forall>w1 evs1. while_running E fuel (w\<lparr>running := True\<rparr>) = Some (None, w1, evs1) \<longrightarrow>
        \<not> running w1
        \<and> run E fuel w = Some (None, w1\<lparr>fd_to_key := [], selector_closed := True\<rparr>, evs1 @ [SelectorClose]))"
proof (intro conjI allI impI)
  fix r w' evs
  assume ret: "run E fuel w = Some (r, w', evs)"
  then obtain r1 w1 evs1 where loop: "while_running E fuel (w\<lparr>running := True\<rparr>) = Some (r1, w1, evs1)"
    by (auto simp add: run_def split: option.splits)
  have le: "list_all loop_event evs1"
    using while_running_events [OF loop] .
  have shape: "r = None" "w' = w1\<lparr>fd_to_key := [], selector_closed := True\<rparr>"
    "evs = evs1 @ (case r1 of None \<Rightarrow> [] | Some e \<Rightarrow>
        [LogError ''Uncaught exception in LocalPeer.run()'', LogTraceback e]) @ [SelectorClose]"
    using ret loop by (simp_all add: run_def selector_close_def)
  show "r = None" by (rule shape)
  show "selector_closed w'" "fd_to_key w' = []" using shape by simp_all
  show "count_list evs SelectorClose = 1"
    using shape loop_event_count(1) [OF le] by (simp split: option.split)
  show "last evs = SelectorClose" using shape by simp
  show "run E (fuel + k) w = Some (r, w', evs)" for k
    using ret while_running_more_fuel [OF loop, of k] loop by (simp add: run_def)
next
  fix e w1 evs1
  assume loop: "while_running E fuel (w\<lparr>running := True\<rparr>) = Some (Some e, w1, evs1)"
  show "run E fuel w =
      Some (None, w1\<lparr>fd_to_key := [], selector_closed := True\<rparr>,
            evs1 @ [LogError ''Uncaught exception in LocalPeer.run()'', LogTraceback e, SelectorClose])"
    using loop by (simp add: run_def selector_close_def)
  show "count_list evs1 (LogError ''Uncaught exception in LocalPeer.run()'') = 0"
    using loop_event_count(2) [OF while_running_events [OF loop]] .
next
  fix w1 evs1
  assume loop: "while_running E fuel (w\<lparr>running := True\<rparr>) = Some (None, w1, evs1)"
  show "\<not> running w1" using while_running_exit [OF loop] .
  show "run E fuel w = Some (None, w1\<lparr>fd_to_key := [], selector_closed := True\<rparr>, evs1 @ [SelectorClose])"
    using loop by (simp add: run_def selector_close_def)
qed

theorem run_closes_selector_once_witness:
  "run (idle_env\<lparr>step := (\<lambda>m t w. if m = ChainManager then (Some (OtherException ''boom''), w)
                                    else (None, w))\<rparr>)
     (Suc 0) (example_world ())
   = Some (None,
       \<lparr>running = True, fd_to_key = [], selector_closed = True, open_socks = {0, 3}, ext = ()\<rparr>,
       [ManagerStep NetworkManager 0, ManagerStep ChainManager 0,
        LogError ''Uncaught exception in LocalPeer.run()'', LogTraceback (OtherException ''boom''),
        SelectorClose])
   \<and> run (idle_env\<lparr>time := int, select := (\<lambda>m x. (Inr [], Suc x)),
                    step := (\<lambda>m t w. (None, if m = ChainManager \<and> 1 \<le> t then stop w else w))\<rparr>)
     (Suc (Suc (Suc 0))) (example_world 0)
   = Some (None,
       \<lparr>running = False, fd_to_key = [], selector_closed = True, open_socks = {0, 3}, ext = 2\<rparr>,
       [ManagerStep NetworkManager 0, ManagerStep ChainManager 0, Select,
        ManagerStep NetworkManager 1, ManagerStep ChainManager 1, Select,
        SelectorClose])
   \<and> run (idle_env\<lparr>time := int, select := (\<lambda>m x. (Inr [], Suc x)),
                    step := (\<lambda>m t w. (None, if m = ChainManager \<and> 1 \<le> t then stop w else w))\<rparr>)
     (Suc (Suc (Suc 0)) + 1000) (example_world 0)
   = Some (None,
       \<lparr>running = False, fd_to_key = [], selector_closed = True, open_socks = {0, 3}, ext = 2\<rparr>,
       [ManagerStep NetworkManager 0, ManagerStep ChainManager 0, Select,
        ManagerStep NetworkManager 1, ManagerStep ChainManager 1, Select,
        SelectorClose])"
proof -
  have a: "run (idle_env\<lparr>step := (\<lambda>m t w. if m = ChainManager then (Some (OtherException ''boom''), w)
                                    else (None, w))\<rparr>)
     (Suc 0) (example_world ())
   = Some (None,
       \<lparr>running = True, fd_to_key = [], selector_closed = True, open_socks = {0, 3}, ext = ()\<rparr>,
       [ManagerStep NetworkManager 0, ManagerStep ChainManager 0,
        LogError ''Uncaught exception in LocalPeer.run()'', LogTraceback (OtherException ''boom''),
        SelectorClose])"
    by (simp add: run_def selector_close_def run_iteration_def step_managers_def managers_def
        call_def handle_selector_events_def idle_env_def example_world_def stop_def)
  have b: "run (idle_env\<lparr>time := int, select := (\<lambda>m x. (Inr [], Suc x)),
                    step := (\<lambda>m t w. (None, if m = ChainManager \<and> 1 \<le> t then stop w else w))\<rparr>)
     (Suc (Suc (Suc 0))) (example_world 0)
   = Some (None,
       \<lparr>running = False, fd_to_key = [], selector_closed = True, open_socks = {0, 3}, ext = 2\<rparr>,
       [ManagerStep NetworkManager 0, ManagerStep ChainManager 0, Select,
        ManagerStep NetworkManager 1, ManagerStep ChainManager 1, Select,
        SelectorClose])"
    by (simp add: run_def selector_close_def run_iteration_def step_managers_def managers_def
        call_def handle_selector_events_def idle_env_def example_world_def stop_def)
  show ?thesis
    using a b run_closes_selector_once
      [of "idle_env\<lparr>time := int, select := (\<lambda>m x. (Inr [], Suc x)),
                    step := (\<lambda>m t w. (None, if m = ChainManager \<and> 1 \<le> t then stop w else w))\<rparr>"
        "Suc (Suc (Suc 0))" "example_world 0"]
    by blast
qed

end
